theory Spec2Isabelle
  imports Main
begin

section \<open>JavaScript strings\<close>

text \<open>
  A JavaScript string is a finite sequence of UTF-16 code units. A code unit is modelled
  as a natural number below 65536 and a string as the list of its code units, so that
  \<open>s.length\<close> is \<open>length s\<close>, \<open>s + t\<close> and \<open>s.concat(t)\<close> are \<open>s @ t\<close>,
  and \<open>s.split('')\<close> is the list of the one-unit strings of \<open>s\<close>. Every character
  the sources write in a literal lies in the Basic Multilingual Plane and is one code unit.
\<close>

type_synonym jsstring = "nat list"

text \<open>An ASCII literal of the source, read as code units.\<close>

definition str :: "string \<Rightarrow> jsstring" where
  "str s = map of_char s"

text \<open>\<open>String.fromCharCode(n)\<close> for a non-negative integer \<open>n\<close>: the unit \<open>n\<close> modulo 65536.\<close>

definition fromCharCode :: "nat \<Rightarrow> jsstring" where
  "fromCharCode n = [n mod 65536]"

section \<open>String tasks: \<open>getRectangleString\<close>\<close>

text \<open>
  The literals of \<open>getRectangleString\<close>: the box-drawing characters U+250C, U+2500,
  U+2510, U+2514, U+2518, U+2502, the space and the line feed.
\<close>

definition box_down_right :: nat where "box_down_right = 0x250C"
definition box_horizontal :: nat where "box_horizontal = 0x2500"
definition box_down_left :: nat where "box_down_left = 0x2510"
definition box_up_right :: nat where "box_up_right = 0x2514"
definition box_up_left :: nat where "box_up_left = 0x2518"
definition box_vertical :: nat where "box_vertical = 0x2502"
definition space :: nat where "space = 0x20"
definition line_feed :: nat where "line_feed = 0x0A"

text \<open>
  The inner loop \<open>for (let j = 0; j < width - 2; j += 1) resultRow += ch\<close>, which the
  source writes three times with a different \<open>ch\<close>.
\<close>

function row_loop :: "int \<Rightarrow> int \<Rightarrow> nat \<Rightarrow> jsstring \<Rightarrow> jsstring" where
  "row_loop j width ch resultRow =
     (if j < width - 2 then row_loop (j + 1) width ch (resultRow @ [ch]) else resultRow)"
  by pat_completeness auto
termination
  by (relation "measure (\<lambda>(j, width, ch, resultRow). nat (width - 2 - j))") auto

declare row_loop.simps [simp del]

text \<open>
  The outer loop \<open>for (let i = 0; i < height; i += 1)\<close> with its three branches, in the
  order of the source: the first row, else the last row, else a middle row.
\<close>

function rows_loop :: "int \<Rightarrow> int \<Rightarrow> int \<Rightarrow> jsstring \<Rightarrow> jsstring" where
  "rows_loop i width height acc =
     (if i < height then
        (if i = 0 then
           rows_loop (i + 1) width height
             (acc @ (row_loop 0 width box_horizontal [box_down_right] @ [box_down_left, line_feed]))
         else if i = height - 1 then
           rows_loop (i + 1) width height
             (acc @ (row_loop 0 width box_horizontal [box_up_right] @ [box_up_left, line_feed]))
         else
           rows_loop (i + 1) width height
             (acc @ (row_loop 0 width space [box_vertical] @ [box_vertical, line_feed])))
      else acc)"
  by pat_completeness auto
termination
  by (relation "measure (\<lambda>(i, width, height, acc). nat (height - i))") auto

declare rows_loop.simps [simp del]

definition getRectangleString :: "int \<Rightarrow> int \<Rightarrow> jsstring" where
  "getRectangleString width height = rows_loop 0 width height []"

section \<open>String tasks: \<open>encodeToRot13\<close>\<close>

text \<open>
  \<open>toUpperCase\<close> and \<open>toLocaleLowerCase\<close> are host functions. \<open>encodeToRot13\<close>
  applies the first to one-unit strings holding a member of \<open>letters\<close> and the second,
  without a locale argument, to a result of \<open>codeItem\<close>, which is empty or one
  upper-case letter of the Basic Latin block. The models below give the case mappings on
  that block (U+0000 to U+007F), where the second sends \<open>A\<close> to \<open>Z\<close> to \<open>a\<close> to
  \<open>z\<close>, and leave every other code unit as it is.
\<close>

definition toUpperCase :: "jsstring \<Rightarrow> jsstring" where
  "toUpperCase s = map (\<lambda>c. if 0x61 \<le> c \<and> c \<le> 0x7A then c - 0x20 else c) s"

definition toLocaleLowerCase :: "jsstring \<Rightarrow> jsstring" where
  "toLocaleLowerCase s = map (\<lambda>c. if 0x41 \<le> c \<and> c \<le> 0x5A then c + 0x20 else c) s"

text \<open>
  \<open>s.codePointAt()\<close> reads position 0: \<open>undefined\<close> (here \<open>None\<close>) on the empty
  string, the code point of a surrogate pair, and the first code unit otherwise.
\<close>

fun codePointAt :: "jsstring \<Rightarrow> nat option" where
  "codePointAt [] = None"
| "codePointAt [c] = Some c"
| "codePointAt (c # d # s) =
     (if 0xD800 \<le> c \<and> c \<le> 0xDBFF \<and> 0xDC00 \<le> d \<and> d \<le> 0xDFFF
      then Some ((c - 0xD800) * 0x400 + (d - 0xDC00) + 0x10000) else Some c)"

text \<open>
  The inner function \<open>codeItem\<close>. Its argument is a number or \<open>undefined\<close>; both
  comparisons are false on \<open>undefined\<close>, which leaves the initial \<open>''\<close>.
\<close>

fun codeItem :: "nat option \<Rightarrow> jsstring" where
  "codeItem None = []"
| "codeItem (Some code) =
     (if code < 78 then fromCharCode (code + 13)
      else if code < 91 then fromCharCode (code - 13)
      else [])"

definition letters :: jsstring where
  "letters = str ''ABCDEFGHIJKLMNOPQRSTUVWXYZabcdefghijklmnopqrstuvwxyz''"

text \<open>
  The callback of \<open>map\<close>. Its argument \<open>item\<close> is an element of \<open>str.split('')\<close>, a
  string of one code unit; \<open>letters.includes(item)\<close> is then membership of that unit.
\<close>

definition encodeItem :: "nat \<Rightarrow> jsstring" where
  "encodeItem item =
     (if item \<in> set letters then
        (if [item] = toUpperCase [item] then codeItem (codePointAt [item])
         else toLocaleLowerCase (codeItem (codePointAt (toUpperCase [item]))))
      else [item])"

definition encodeToRot13 :: "jsstring \<Rightarrow> jsstring" where
  "encodeToRot13 s = concat (map encodeItem s)"

section \<open>String tasks: \<open>isString\<close>\<close>

text \<open>
  JavaScript values. An object carries an identity, whether it is callable, its
  \<open>[[StringData]]\<close> slot when it is a String wrapper, and its \<open>[[Prototype]]\<close>
  (\<open>None\<close> for \<open>null\<close>); prototype chains are finite, as the language guarantees for
  ordinary objects. The representation of numbers is left open: \<open>isString\<close> does not
  look into one.
\<close>

datatype jsobject =
  Obj (obj_id: nat) (callable: bool) (stringData: "jsstring option") (proto: "jsobject option")

datatype 'n jsvalue =
    JSUndefined
  | JSNull
  | JSBoolean bool
  | JSNumber 'n
  | JSBigInt int
  | JSString jsstring
  | JSSymbol nat
  | JSObject jsobject

definition Object_prototype :: jsobject where
  "Object_prototype = Obj 0 False None None"

definition String_prototype :: jsobject where
  "String_prototype = Obj 1 False (Some []) (Some Object_prototype)"

text \<open>\<open>new String(s)\<close>, allocated with the identity \<open>i\<close>.\<close>

definition new_String :: "nat \<Rightarrow> jsstring \<Rightarrow> jsobject" where
  "new_String i s = Obj i False (Some s) (Some String_prototype)"

fun typeof :: "'n jsvalue \<Rightarrow> string" where
  "typeof JSUndefined = ''undefined''"
| "typeof JSNull = ''object''"
| "typeof (JSBoolean b) = ''boolean''"
| "typeof (JSNumber n) = ''number''"
| "typeof (JSBigInt n) = ''bigint''"
| "typeof (JSString s) = ''string''"
| "typeof (JSSymbol n) = ''symbol''"
| "typeof (JSObject ob) = (if callable ob then ''function'' else ''object'')"

text \<open>
  \<open>value instanceof String\<close> is \<open>OrdinaryHasInstance(String, value)\<close>: false on a
  primitive; on an object, the walk up the prototype chain that looks for the object
  \<open>String.prototype\<close>, compared by identity.
\<close>

fun inPrototypeChain :: "jsobject \<Rightarrow> jsobject \<Rightarrow> bool" where
  "inPrototypeChain P (Obj i c d None) = False"
| "inPrototypeChain P (Obj i c d (Some ob)) =
     (if obj_id ob = obj_id P then True else inPrototypeChain P ob)"

fun instanceof_String :: "'n jsvalue \<Rightarrow> bool" where
  "instanceof_String (JSObject ob) = inPrototypeChain String_prototype ob"
| "instanceof_String v = False"

definition isString :: "'n jsvalue \<Rightarrow> bool" where
  "isString v = (if typeof v = ''string'' then True else instanceof_String v)"

text \<open>
  The words of the specification, to compare with \<open>isString\<close>: a String object instance
  is an object that has \<open>String.prototype\<close> among its prototypes.
\<close>

fun prototypes :: "jsobject \<Rightarrow> jsobject list" where
  "prototypes (Obj i c d None) = []"
| "prototypes (Obj i c d (Some ob)) = ob # prototypes ob"

definition is_String_instance :: "jsobject \<Rightarrow> bool" where
  "is_String_instance ob = (obj_id String_prototype \<in> obj_id ` set (prototypes ob))"

section \<open>String tasks: \<open>getCardId\<close>\<close>

text \<open>The suit characters U+2663, U+2666, U+2665 and U+2660.\<close>

definition clubs :: nat where "clubs = 0x2663"
definition diamonds :: nat where "diamonds = 0x2666"
definition hearts :: nat where "hearts = 0x2665"
definition spades :: nat where "spades = 0x2660"

definition mass :: "jsstring list" where
  "mass = [
      str ''A'' @ [clubs], str ''2'' @ [clubs], str ''3'' @ [clubs], str ''4'' @ [clubs], str ''5'' @ [clubs], str ''6'' @ [clubs], str ''7'' @ [clubs], str ''8'' @ [clubs], str ''9'' @ [clubs], str ''10'' @ [clubs], str ''J'' @ [clubs], str ''Q'' @ [clubs], str ''K'' @ [clubs],
      str ''A'' @ [diamonds], str ''2'' @ [diamonds], str ''3'' @ [diamonds], str ''4'' @ [diamonds], str ''5'' @ [diamonds], str ''6'' @ [diamonds], str ''7'' @ [diamonds], str ''8'' @ [diamonds], str ''9'' @ [diamonds], str ''10'' @ [diamonds], str ''J'' @ [diamonds], str ''Q'' @ [diamonds], str ''K'' @ [diamonds],
      str ''A'' @ [hearts], str ''2'' @ [hearts], str ''3'' @ [hearts], str ''4'' @ [hearts], str ''5'' @ [hearts], str ''6'' @ [hearts], str ''7'' @ [hearts], str ''8'' @ [hearts], str ''9'' @ [hearts], str ''10'' @ [hearts], str ''J'' @ [hearts], str ''Q'' @ [hearts], str ''K'' @ [hearts],
      str ''A'' @ [spades], str ''2'' @ [spades], str ''3'' @ [spades], str ''4'' @ [spades], str ''5'' @ [spades], str ''6'' @ [spades], str ''7'' @ [spades], str ''8'' @ [spades], str ''9'' @ [spades], str ''10'' @ [spades], str ''J'' @ [spades], str ''Q'' @ [spades], str ''K'' @ [spades]]"

text \<open>
  \<open>Array.prototype.indexOf\<close> from position 0: the first index whose element is strictly
  equal to the value, \<open>-1\<close> when there is none.
\<close>

fun indexOf_from :: "'a list \<Rightarrow> 'a \<Rightarrow> int \<Rightarrow> int" where
  "indexOf_from [] v k = - 1"
| "indexOf_from (x # xs) v k = (if x = v then k else indexOf_from xs v (k + 1))"

definition indexOf :: "'a list \<Rightarrow> 'a \<Rightarrow> int" where
  "indexOf xs v = indexOf_from xs v 0"

definition getCardId :: "jsstring \<Rightarrow> int" where
  "getCardId v = indexOf mass v"

text \<open>
  The deck as the specification describes it, suit by suit and rank by rank within a suit.
\<close>

definition card_ranks :: "jsstring list" where
  "card_ranks = [str ''A'', str ''2'', str ''3'', str ''4'', str ''5'', str ''6'', str ''7'',
     str ''8'', str ''9'', str ''10'', str ''J'', str ''Q'', str ''K'']"

definition card_suits :: "nat list" where
  "card_suits = [clubs, diamonds, hearts, spades]"

definition deck :: "jsstring list" where
  "deck = concat (map (\<lambda>suit. map (\<lambda>rank. rank @ [suit]) card_ranks) card_suits)"

section \<open>The selector builder\<close>

text \<open>
  \<open>cssSelectorBuilder\<close> is one object with the fields \<open>result\<close> (a string) and
  \<open>index\<close> (an array of numbers) and with methods that read and write them through
  \<open>this\<close>. \<open>element\<close> returns a new object, a copy of \<open>this\<close> with both fields
  replaced; every other method writes to \<open>this\<close> and returns it. Two references can
  therefore name one object, and \<open>combine\<close> reads two of them in turn, so the objects
  live in a store and the methods take and return references. No array is shared between
  two objects (the copy made by \<open>element\<close> gets a new array at once), so the array is a
  value of the field.

  The source throws \<open>Error\<close> with one of two messages: the one on a repeated element, id
  or pseudo-element is \<open>DuplicateError\<close>, the one on the order of the parts is
  \<open>OrderError\<close>. \<open>TypeError\<close> is what a method call on a receiver that is no object
  of the store gives.
\<close>

datatype error = DuplicateError | OrderError | TypeError

record builder =
  result :: jsstring
  index :: "nat list"

type_synonym ref = nat

type_synonym store = "builder list"

text \<open>The store when the module is loaded: the exported object alone, at reference 0.\<close>

definition cssSelectorBuilder :: ref where
  "cssSelectorBuilder = 0"

definition initial_store :: store where
  "initial_store = [\<lparr>result = [], index = []\<rparr>]"

text \<open>\<open>this.index.includes(k)\<close>.\<close>

definition array_includes :: "nat list \<Rightarrow> nat \<Rightarrow> bool" where
  "array_includes items k = (k \<in> set items)"

text \<open>
  \<open>this.index.forEach((item) => { if (item > k) { this.index = []; throw ... } })\<close>:
  whether the callback throws, which it does at the first item above \<open>k\<close>.
\<close>

primrec forEach_throws :: "nat \<Rightarrow> nat list \<Rightarrow> bool" where
  "forEach_throws k [] = False"
| "forEach_throws k (item # items) = (if item > k then True else forEach_throws k items)"

text \<open>\<open>this.index = []; throw new Error(...)\<close>.\<close>

definition throw_reset :: "error \<Rightarrow> ref \<Rightarrow> store \<Rightarrow> (error + 'a) \<times> store" where
  "throw_reset e this \<sigma> = (Inl e, \<sigma>[this := (\<sigma> ! this)\<lparr>index := []\<rparr>])"

text \<open>\<open>this.index.push(k); this.result = this.result.concat(text); return this\<close>.\<close>

definition push_concat :: "nat \<Rightarrow> jsstring \<Rightarrow> ref \<Rightarrow> store \<Rightarrow> (error + ref) \<times> store" where
  "push_concat k text this \<sigma> =
     (Inr this,
      \<sigma>[this := (\<sigma> ! this)\<lparr>index := index (\<sigma> ! this) @ [k],
                               result := result (\<sigma> ! this) @ text\<rparr>])"

definition element :: "ref \<Rightarrow> jsstring \<Rightarrow> store \<Rightarrow> (error + ref) \<times> store" where
  "element this val \<sigma> =
     (if length \<sigma> \<le> this then (Inl TypeError, \<sigma>)
      else if array_includes (index (\<sigma> ! this)) 1 then throw_reset DuplicateError this \<sigma>
      else (Inr (length \<sigma>), \<sigma> @ [(\<sigma> ! this)\<lparr>result := val, index := [] @ [1]\<rparr>]))"

definition id_sel :: "ref \<Rightarrow> jsstring \<Rightarrow> store \<Rightarrow> (error + ref) \<times> store" where
  "id_sel this val \<sigma> =
     (if length \<sigma> \<le> this then (Inl TypeError, \<sigma>)
      else if array_includes (index (\<sigma> ! this)) 2 then throw_reset DuplicateError this \<sigma>
      else if forEach_throws 2 (index (\<sigma> ! this)) then throw_reset OrderError this \<sigma>
      else push_concat 2 (str ''#'' @ val) this \<sigma>)"

definition class_sel :: "ref \<Rightarrow> jsstring \<Rightarrow> store \<Rightarrow> (error + ref) \<times> store" where
  "class_sel this val \<sigma> =
     (if length \<sigma> \<le> this then (Inl TypeError, \<sigma>)
      else if forEach_throws 3 (index (\<sigma> ! this)) then throw_reset OrderError this \<sigma>
      else push_concat 3 (str ''.'' @ val) this \<sigma>)"

definition attr :: "ref \<Rightarrow> jsstring \<Rightarrow> store \<Rightarrow> (error + ref) \<times> store" where
  "attr this val \<sigma> =
     (if length \<sigma> \<le> this then (Inl TypeError, \<sigma>)
      else if forEach_throws 4 (index (\<sigma> ! this)) then throw_reset OrderError this \<sigma>
      else push_concat 4 (str ''['' @ val @ str '']'') this \<sigma>)"

definition pseudoClass :: "ref \<Rightarrow> jsstring \<Rightarrow> store \<Rightarrow> (error + ref) \<times> store" where
  "pseudoClass this val \<sigma> =
     (if length \<sigma> \<le> this then (Inl TypeError, \<sigma>)
      else if forEach_throws 5 (index (\<sigma> ! this)) then throw_reset OrderError this \<sigma>
      else push_concat 5 (str '':'' @ val) this \<sigma>)"

definition pseudoElement :: "ref \<Rightarrow> jsstring \<Rightarrow> store \<Rightarrow> (error + ref) \<times> store" where
  "pseudoElement this val \<sigma> =
     (if length \<sigma> \<le> this then (Inl TypeError, \<sigma>)
      else if forEach_throws 6 (index (\<sigma> ! this)) then throw_reset OrderError this \<sigma>
      else if array_includes (index (\<sigma> ! this)) 6 then throw_reset DuplicateError this \<sigma>
      else push_concat 6 (str ''::'' @ val) this \<sigma>)"

definition stringify :: "ref \<Rightarrow> store \<Rightarrow> (error + jsstring) \<times> store" where
  "stringify this \<sigma> =
     (if length \<sigma> \<le> this then (Inl TypeError, \<sigma>)
      else (Inr (result (\<sigma> ! this)), \<sigma>[this := (\<sigma> ! this)\<lparr>result := [], index := []\<rparr>]))"

text \<open>
  \<open>combine\<close> evaluates \<open>sel1.stringify()\<close>, then \<open>sel2.stringify()\<close>, then assigns
  \<open>this.result\<close>; the combinator is a string, so the template literal has no effect of
  its own.
\<close>

definition combine :: "ref \<Rightarrow> ref \<Rightarrow> jsstring \<Rightarrow> ref \<Rightarrow> store \<Rightarrow> (error + ref) \<times> store" where
  "combine this sel1 com sel2 \<sigma> =
     (if length \<sigma> \<le> this then (Inl TypeError, \<sigma>)
      else case stringify sel1 \<sigma> of
        (Inl e, \<sigma>1) \<Rightarrow> (Inl e, \<sigma>1)
      | (Inr s1, \<sigma>1) \<Rightarrow>
          (case stringify sel2 \<sigma>1 of
             (Inl e, \<sigma>2) \<Rightarrow> (Inl e, \<sigma>2)
           | (Inr s2, \<sigma>2) \<Rightarrow>
               (Inr this,
                \<sigma>2[this := (\<sigma>2 ! this)\<lparr>result := (s1 @ (str '' '' @ com @ str '' '')) @ s2\<rparr>])))"

text \<open>A method call on the value the previous call returned; a raised error ends the chain.\<close>

definition and_then ::
  "(store \<Rightarrow> (error + 'a) \<times> store) \<Rightarrow> ('a \<Rightarrow> store \<Rightarrow> (error + 'b) \<times> store) \<Rightarrow>
   store \<Rightarrow> (error + 'b) \<times> store" where
  "and_then m f \<sigma> = (case m \<sigma> of (Inl e, \<sigma>') \<Rightarrow> (Inl e, \<sigma>') | (Inr x, \<sigma>') \<Rightarrow> f x \<sigma>')"

text \<open>
  \<open>b.element(tag).id(i).class(c).attr(a).pseudoClass(pc).pseudoElement(pe).stringify()\<close>.
\<close>

definition full_chain ::
  "ref \<Rightarrow> jsstring \<Rightarrow> jsstring \<Rightarrow> jsstring \<Rightarrow> jsstring \<Rightarrow> jsstring \<Rightarrow> jsstring \<Rightarrow>
   store \<Rightarrow> (error + jsstring) \<times> store" where
  "full_chain b tag i c a pc pe =
     and_then (element b tag) (\<lambda>r1.
     and_then (id_sel r1 i) (\<lambda>r2.
     and_then (class_sel r2 c) (\<lambda>r3.
     and_then (attr r3 a) (\<lambda>r4.
     and_then (pseudoClass r4 pc) (\<lambda>r5.
     and_then (pseudoElement r5 pe) stringify)))))"

text \<open>
  The six categories of the specification with their ranks, and the method that adds a
  fragment of each.
\<close>

datatype category =
  ElementCat | IdCat | ClassCat | AttributeCat | PseudoClassCat | PseudoElementCat

fun rank :: "category \<Rightarrow> nat" where
  "rank ElementCat = 1"
| "rank IdCat = 2"
| "rank ClassCat = 3"
| "rank AttributeCat = 4"
| "rank PseudoClassCat = 5"
| "rank PseudoElementCat = 6"

fun add_fragment :: "category \<Rightarrow> ref \<Rightarrow> jsstring \<Rightarrow> store \<Rightarrow> (error + ref) \<times> store" where
  "add_fragment ElementCat = element"
| "add_fragment IdCat = id_sel"
| "add_fragment ClassCat = class_sel"
| "add_fragment AttributeCat = attr"
| "add_fragment PseudoClassCat = pseudoClass"
| "add_fragment PseudoElementCat = pseudoElement"


text \<open>
  What a program can do with the module: any sequence of method calls on objects of the
  store, each of which returns or raises. \<open>run\<close> gives the store such a sequence leaves
  behind, from the store of the loaded module.
\<close>

datatype call =
    Add category ref jsstring
  | Combine ref ref jsstring ref
  | Stringify ref

fun exec :: "call \<Rightarrow> store \<Rightarrow> store" where
  "exec (Add cat this val) \<sigma> = snd (add_fragment cat this val \<sigma>)"
| "exec (Combine this sel1 com sel2) \<sigma> = snd (combine this sel1 com sel2 \<sigma>)"
| "exec (Stringify this) \<sigma> = snd (stringify this \<sigma>)"

definition run :: "call list \<Rightarrow> store" where
  "run calls = foldl (\<lambda>\<sigma> c. exec c \<sigma>) initial_store calls"

text \<open>An expression that has a value and no effect on the store.\<close>

definition returns :: "'a \<Rightarrow> store \<Rightarrow> (error + 'a) \<times> store" where
  "returns x \<sigma> = (Inr x, \<sigma>)"

text \<open>
  Two properties of a store that every run keeps: the exported object is there and records
  no element, and every recorded number is one of the six ranks.
\<close>

definition exported_ok :: "store \<Rightarrow> bool" where
  "exported_ok \<sigma> =
     (cssSelectorBuilder < length \<sigma> \<and> \<not> array_includes (index (\<sigma> ! cssSelectorBuilder)) 1)"


section \<open>Properties of the string tasks\<close>

subsection \<open>\<open>getRectangleString\<close>\<close>

text \<open>
  Claim C9. \<open>getRectangleString(4, 3)\<close> is three rows, each ended by a line feed: the top
  row U+250C U+2500 U+2500 U+2510, the middle row U+2502, two spaces, U+2502, and the
  bottom row U+2514 U+2500 U+2500 U+2518.
\<close>

theorem getRectangleString_4_3:
  "getRectangleString 4 3 =
     [0x250C, 0x2500, 0x2500, 0x2510, 0x0A] @
     [0x2502, 0x20, 0x20, 0x2502, 0x0A] @
     [0x2514, 0x2500, 0x2500, 0x2518, 0x0A]"
  by (simp add: getRectangleString_def rows_loop.simps row_loop.simps
      box_down_right_def box_horizontal_def box_down_left_def box_up_right_def
      box_up_left_def box_vertical_def space_def line_feed_def)

subsection \<open>\<open>encodeToRot13\<close>\<close>

lemma letters_upt: "letters = [65..<91] @ [97..<123]"
  by (simp add: letters_def str_def upt_rec)

lemma in_letters_iff:
  "c \<in> set letters \<longleftrightarrow> (65 \<le> c \<and> c \<le> 90) \<or> (97 \<le> c \<and> c \<le> 122)"
proof -
  have "set letters = {65..<91} \<union> {97..<123}"
    unfolding letters_upt by (simp only: set_append set_upt)
  then show ?thesis by auto
qed

text \<open>
  \<open>encodeItem\<close> is the ROT13 substitution: thirteen up in the first half of each
  alphabet, thirteen down in the second half, and every other unit as it is.
\<close>

lemma encodeItem_rot13:
  "encodeItem c =
     (if 65 \<le> c \<and> c \<le> 77 \<or> 97 \<le> c \<and> c \<le> 109 then [c + 13]
      else if 78 \<le> c \<and> c \<le> 90 \<or> 110 \<le> c \<and> c \<le> 122 then [c - 13]
      else [c])"
  by (auto simp: encodeItem_def in_letters_iff toUpperCase_def toLocaleLowerCase_def
      fromCharCode_def)

lemma encodeItem_twice: "concat (map encodeItem (encodeItem c)) = [c]"
  by (auto simp: encodeItem_rot13)

lemma encodeToRot13_append: "encodeToRot13 (s @ t) = encodeToRot13 s @ encodeToRot13 t"
  by (simp add: encodeToRot13_def)

lemma encodeToRot13_involution: "encodeToRot13 (encodeToRot13 s) = s"
proof (induction s)
  case Nil
  show ?case by (simp add: encodeToRot13_def)
next
  case (Cons c s)
  have "encodeToRot13 (c # s) = encodeItem c @ encodeToRot13 s"
    by (simp add: encodeToRot13_def)
  moreover have "encodeToRot13 (encodeItem c) = [c]"
    using encodeItem_twice [of c] by (simp add: encodeToRot13_def)
  ultimately show ?case
    using Cons.IH by (simp add: encodeToRot13_append)
qed

text \<open>Each unit gives one unit, and a unit that is no letter gives itself.\<close>

lemma encodeItem_singleton: "encodeItem c = [hd (encodeItem c)]"
  by (auto simp: encodeItem_rot13)

lemma encodeToRot13_map: "encodeToRot13 s = map (\<lambda>c. hd (encodeItem c)) s"
proof (induction s)
  case Nil
  show ?case by (simp add: encodeToRot13_def)
next
  case (Cons c s)
  have "encodeToRot13 (c # s) = encodeItem c @ encodeToRot13 s"
    by (simp add: encodeToRot13_def)
  also have "\<dots> = [hd (encodeItem c)] @ map (\<lambda>c. hd (encodeItem c)) s"
    using Cons.IH encodeItem_singleton [of c] by simp
  finally show ?case by simp
qed

lemma encodeToRot13_non_letter:
  assumes "i < length s" and "s ! i \<notin> set letters"
  shows "encodeToRot13 s ! i = s ! i"
  using assms by (simp add: encodeToRot13_map encodeItem_def)

text \<open>
  Claim C7. Applying \<open>encodeToRot13\<close> twice to any string gives the string back. One
  application keeps the length of the string and leaves every unit that is no letter of
  the two Basic Latin alphabets where it was and as it was.
\<close>

theorem encodeToRot13_involution_non_letters:
  "encodeToRot13 (encodeToRot13 s) = s \<and>
   length (encodeToRot13 s) = length s \<and>
   (\<forall>i<length s. s ! i \<notin> set letters \<longrightarrow> encodeToRot13 s ! i = s ! i)"
  by (simp add: encodeToRot13_involution encodeToRot13_non_letter)
    (simp add: encodeToRot13_map)

theorem encodeToRot13_involution_non_letters_witness:
  "encodeToRot13 (encodeToRot13 (str ''Hello, v!'')) = str ''Hello, v!'' \<and>
   encodeToRot13 (str ''Hello, v!'') = str ''Uryyb, i!'' \<and>
   (5::nat) < length (str ''Hello, v!'') \<and>
   str ''Hello, v!'' ! 5 \<notin> set letters \<and>
   encodeToRot13 (str ''Hello, v!'') ! 5 = str ''Hello, v!'' ! 5"
proof -
  have twice: "encodeToRot13 (encodeToRot13 (str ''Hello, v!'')) = str ''Hello, v!''"
    and unchanged: "\<forall>i<length (str ''Hello, v!'').
      str ''Hello, v!'' ! i \<notin> set letters \<longrightarrow>
      encodeToRot13 (str ''Hello, v!'') ! i = str ''Hello, v!'' ! i"
    using encodeToRot13_involution_non_letters [of "str ''Hello, v!''"] by simp_all
  have position: "(5::nat) < length (str ''Hello, v!'')"
    by (simp add: str_def)
  have comma: "str ''Hello, v!'' ! 5 \<notin> set letters"
    by (simp add: str_def in_letters_iff)
  from unchanged position
  have "str ''Hello, v!'' ! 5 \<notin> set letters \<longrightarrow>
      encodeToRot13 (str ''Hello, v!'') ! 5 = str ''Hello, v!'' ! 5"
    by blast
  from this comma have kept: "encodeToRot13 (str ''Hello, v!'') ! 5 = str ''Hello, v!'' ! 5"
    by (rule mp)
  have once: "encodeToRot13 (str ''Hello, v!'') = str ''Uryyb, i!''"
    by (simp add: encodeToRot13_def encodeItem_rot13 str_def)
  show ?thesis
    by (intro conjI twice once position comma kept)
qed

subsection \<open>\<open>isString\<close>\<close>

lemma inPrototypeChain_iff:
  "inPrototypeChain P ob \<longleftrightarrow> obj_id P \<in> obj_id ` set (prototypes ob)"
  by (induction P ob rule: inPrototypeChain.induct) auto

text \<open>
  Claim C10. \<open>isString\<close> is true exactly on a primitive string and on an object that is
  an instance of \<open>String\<close>, such as \<open>new String(s)\<close>; it is false on \<open>null\<close>, on
  \<open>undefined\<close> and on every number.
\<close>

theorem isString_iff:
  "(isString v \<longleftrightarrow> (\<exists>s. v = JSString s) \<or> (\<exists>ob. v = JSObject ob \<and> is_String_instance ob)) \<and>
   isString (JSObject (new_String i s) :: 'n jsvalue) \<and>
   \<not> isString (JSNull :: 'n jsvalue) \<and>
   \<not> isString (JSUndefined :: 'n jsvalue) \<and>
   \<not> isString (JSNumber n)"
proof -
  have "isString v \<longleftrightarrow> (\<exists>s. v = JSString s) \<or> (\<exists>ob. v = JSObject ob \<and> is_String_instance ob)"
    by (cases v) (auto simp: isString_def is_String_instance_def inPrototypeChain_iff)
  moreover have "isString (JSObject (new_String i s) :: 'n jsvalue)"
    by (simp add: isString_def new_String_def String_prototype_def)
  ultimately show ?thesis
    by (simp add: isString_def)
qed

subsection \<open>\<open>getCardId\<close>\<close>

lemma indexOf_from_absent: "v \<notin> set xs \<Longrightarrow> indexOf_from xs v k = - 1"
  by (induction xs arbitrary: k) auto

lemma indexOf_from_nth:
  "distinct xs \<Longrightarrow> i < length xs \<Longrightarrow> indexOf_from xs (xs ! i) k = k + int i"
proof (induction xs arbitrary: i k)
  case Nil
  then show ?case by simp
next
  case (Cons x xs)
  show ?case
  proof (cases i)
    case 0
    then show ?thesis by simp
  next
    case (Suc j)
    with Cons.prems have "xs ! j \<noteq> x" by auto
    with Suc Cons show ?thesis by simp
  qed
qed

lemmas card_defs = mass_def deck_def card_ranks_def card_suits_def str_def
  clubs_def diamonds_def hearts_def spades_def

lemma mass_deck: "mass = deck"
  by (simp add: card_defs)

lemma distinct_mass: "distinct mass"
  by (simp add: card_defs)

lemma length_mass: "length mass = 52"
  by (simp add: mass_def)

lemma mass_nth:
  assumes "s < 4" and "r < 13"
  shows "mass ! (13 * s + r) = card_ranks ! r @ [card_suits ! s]"
proof -
  from assms have "s = 0 \<or> s = 1 \<or> s = 2 \<or> s = 3"
    and "r = 0 \<or> r = 1 \<or> r = 2 \<or> r = 3 \<or> r = 4 \<or> r = 5 \<or> r = 6 \<or> r = 7 \<or> r = 8 \<or> r = 9
      \<or> r = 10 \<or> r = 11 \<or> r = 12"
    by arith+
  then show ?thesis
    by (elim disjE) (simp_all add: card_defs)
qed

lemma getCardId_nth: "i < 52 \<Longrightarrow> getCardId (mass ! i) = int i"
  using indexOf_from_nth [OF distinct_mass, of i 0]
  by (simp add: getCardId_def indexOf_def length_mass)

text \<open>
  Claim C8. The array of \<open>getCardId\<close> is the deck of 52 cards, suit by suit (clubs,
  diamonds, hearts, spades) and rank by rank within a suit; \<open>getCardId\<close> gives each card
  its position from zero, so 0 for the ace of clubs and 51 for the king of spades, and
  \<open>-1\<close> for every string that is no card of the deck, such as \<open>Z\<close> followed by the
  club sign.
\<close>

theorem getCardId_deck:
  "mass = deck \<and> length mass = 52 \<and>
   (\<forall>i<52. getCardId (mass ! i) = int i) \<and>
   (\<forall>s<4. \<forall>r<13. getCardId (card_ranks ! r @ [card_suits ! s]) = int (13 * s + r)) \<and>
   (\<forall>v. v \<notin> set mass \<longrightarrow> getCardId v = - 1) \<and>
   getCardId (str ''A'' @ [0x2663]) = 0 \<and>
   getCardId (str ''K'' @ [0x2660]) = 51 \<and>
   getCardId (str ''Z'' @ [0x2663]) = - 1"
proof -
  have by_suit_and_rank: "getCardId (card_ranks ! r @ [card_suits ! s]) = int (13 * s + r)"
    if "s < 4" and "r < 13" for s r
  proof -
    from that have "13 * s + r < 52" by simp
    then show ?thesis
      using getCardId_nth [of "13 * s + r"] mass_nth [OF that] by simp
  qed
  have absent: "getCardId v = - 1" if "v \<notin> set mass" for v
    using that by (simp add: getCardId_def indexOf_def indexOf_from_absent)
  have ace: "getCardId (str ''A'' @ [0x2663]) = 0"
    using by_suit_and_rank [of 0 0] by (simp add: card_defs)
  have king: "getCardId (str ''K'' @ [0x2660]) = 51"
    using by_suit_and_rank [of 3 12] by (simp add: card_defs)
  have no_card: "str ''Z'' @ [0x2663] \<notin> set mass"
    by (simp add: card_defs)
  show ?thesis
    by (intro conjI allI impI mass_deck length_mass getCardId_nth by_suit_and_rank absent
        ace king no_card)
qed

theorem getCardId_deck_witness:
  "(5::nat) < 52 \<and> getCardId (mass ! 5) = 5 \<and>
   (2::nat) < 4 \<and> (9::nat) < 13 \<and> getCardId (card_ranks ! 9 @ [card_suits ! 2]) = 35 \<and>
   str ''10'' @ [0x2665] = card_ranks ! 9 @ [card_suits ! 2] \<and>
   str ''Z'' @ [0x2663] \<notin> set mass \<and> getCardId (str ''Z'' @ [0x2663]) = - 1"
proof -
  have positions: "\<forall>i<52. getCardId (mass ! i) = int i"
    using getCardId_deck by (elim conjE)
  have by_suit_and_rank:
    "\<forall>s<4. \<forall>r<13. getCardId (card_ranks ! r @ [card_suits ! s]) = int (13 * s + r)"
    using getCardId_deck by (elim conjE)
  have absent: "\<forall>v. v \<notin> set mass \<longrightarrow> getCardId v = - 1"
    using getCardId_deck by (elim conjE)
  from positions have "(5::nat) < 52 \<longrightarrow> getCardId (mass ! 5) = int 5"
    by (rule spec)
  then have position: "getCardId (mass ! 5) = 5"
    by simp
  from by_suit_and_rank
  have "(2::nat) < 4 \<longrightarrow> (\<forall>r<13. getCardId (card_ranks ! r @ [card_suits ! 2]) = int (13 * 2 + r))"
    by (rule spec)
  then have "\<forall>r<13. getCardId (card_ranks ! r @ [card_suits ! 2]) = int (13 * 2 + r)"
    by simp
  then have "(9::nat) < 13 \<longrightarrow> getCardId (card_ranks ! 9 @ [card_suits ! 2]) = int (13 * 2 + 9)"
    by (rule spec)
  then have ten_of_hearts: "getCardId (card_ranks ! 9 @ [card_suits ! 2]) = 35"
    by simp
  have same_card: "str ''10'' @ [0x2665] = card_ranks ! 9 @ [card_suits ! 2]"
    by (simp add: card_defs)
  have no_card: "str ''Z'' @ [0x2663] \<notin> set mass"
    by (simp add: card_defs)
  from absent
  have "str ''Z'' @ [0x2663] \<notin> set mass \<longrightarrow> getCardId (str ''Z'' @ [0x2663]) = - 1"
    by (rule spec)
  from this no_card have sentinel: "getCardId (str ''Z'' @ [0x2663]) = - 1"
    by (rule mp)
  have bounds: "(5::nat) < 52" "(2::nat) < 4" "(9::nat) < 13"
    by simp_all
  show ?thesis
    by (intro conjI bounds position ten_of_hearts same_card no_card sentinel)
qed

section \<open>Properties of the selector builder\<close>

lemma forEach_throws_iff: "forEach_throws k items \<longleftrightarrow> (\<exists>item\<in>set items. k < item)"
  by (induction items) auto

lemmas method_defs = element_def id_sel_def class_sel_def attr_def pseudoClass_def
  pseudoElement_def throw_reset_def push_concat_def array_includes_def

subsection \<open>What every run keeps\<close>

lemma exported_ok_add_fragment:
  "exported_ok \<sigma> \<Longrightarrow> exported_ok (snd (add_fragment cat this val \<sigma>))"
  by (cases cat)
    (auto simp: exported_ok_def method_defs nth_append nth_list_update cssSelectorBuilder_def)

lemma exported_ok_stringify: "exported_ok \<sigma> \<Longrightarrow> exported_ok (snd (stringify this \<sigma>))"
  by (auto simp: exported_ok_def stringify_def array_includes_def nth_list_update)

lemma exported_ok_combine:
  "exported_ok \<sigma> \<Longrightarrow> exported_ok (snd (combine this sel1 com sel2 \<sigma>))"
  by (auto simp: exported_ok_def combine_def stringify_def array_includes_def nth_list_update)

lemma exported_ok_exec: "exported_ok \<sigma> \<Longrightarrow> exported_ok (exec c \<sigma>)"
  by (cases c) (simp_all add: exported_ok_add_fragment exported_ok_stringify exported_ok_combine)

lemma exported_ok_foldl:
  "exported_ok \<sigma> \<Longrightarrow> exported_ok (foldl (\<lambda>\<sigma> c. exec c \<sigma>) \<sigma> calls)"
  by (induction calls arbitrary: \<sigma>) (simp_all add: exported_ok_exec)

lemma exported_ok_run: "exported_ok (run calls)"
  unfolding run_def
  by (rule exported_ok_foldl)
    (simp add: exported_ok_def initial_store_def cssSelectorBuilder_def array_includes_def)










subsection \<open>The order of the parts\<close>

text \<open>
  Claim C1, as the specification states it, fails in two places. \<open>element\<close> makes no
  check of the order: after \<open>cssSelectorBuilder.id('id')\<close> the exported object records
  rank 2, and \<open>element('div')\<close> on it returns a new object. And \<open>id\<close> looks for a
  recorded id before it looks at the order: after \<open>id('a').class('b')\<close> a further
  \<open>id('c')\<close> raises the error of the repeated id and not the error of the order.
\<close>

theorem add_fragment_order_counterexample:
  "rank ElementCat < 2 \<and>
   2 \<in> set (index (snd (id_sel cssSelectorBuilder (str ''id'') initial_store) ! cssSelectorBuilder)) \<and>
   fst (add_fragment ElementCat cssSelectorBuilder (str ''div'')
          (snd (id_sel cssSelectorBuilder (str ''id'') initial_store))) = Inr 1 \<and>
   rank IdCat < 3 \<and>
   3 \<in> set (index (snd (class_sel cssSelectorBuilder (str ''b'')
          (snd (id_sel cssSelectorBuilder (str ''a'') initial_store))) ! cssSelectorBuilder)) \<and>
   fst (add_fragment IdCat cssSelectorBuilder (str ''c'')
          (snd (class_sel cssSelectorBuilder (str ''b'')
             (snd (id_sel cssSelectorBuilder (str ''a'') initial_store))))) = Inl DuplicateError"
  by (simp add: method_defs initial_store_def cssSelectorBuilder_def str_def)

text \<open>
  Claim C1, amended. For every store, every object of it and each of \<open>id\<close>, \<open>class\<close>,
  \<open>attr\<close>, \<open>pseudoClass\<close> and \<open>pseudoElement\<close>: when the object records a rank above
  the rank of the method, and, for \<open>id\<close>, records no id yet, the call raises
  \<open>OrderError\<close>. In particular \<open>id\<close> called on what a call of \<open>class\<close> returned, on an
  object that recorded no id, raises \<open>OrderError\<close>.
\<close>

theorem add_fragment_OrderError:
  "(this < length \<sigma> \<and> cat \<noteq> ElementCat \<and> (\<exists>k\<in>set (index (\<sigma> ! this)). rank cat < k) \<and>
      (cat = IdCat \<longrightarrow> \<not> array_includes (index (\<sigma> ! this)) 2)
      \<longrightarrow> fst (add_fragment cat this val \<sigma>) = Inl OrderError) \<and>
   (class_sel this' c \<sigma>' = (Inr r, \<sigma>'') \<and> \<not> array_includes (index (\<sigma>' ! this')) 2
      \<longrightarrow> fst (id_sel r v \<sigma>'') = Inl OrderError)"
proof (intro conjI impI; elim conjE)
  assume "this < length \<sigma>" and "cat \<noteq> ElementCat"
    and "\<exists>k\<in>set (index (\<sigma> ! this)). rank cat < k"
    and "cat = IdCat \<longrightarrow> \<not> array_includes (index (\<sigma> ! this)) 2"
  then show "fst (add_fragment cat this val \<sigma>) = Inl OrderError"
    by (cases cat) (auto simp: method_defs forEach_throws_iff)
next
  assume "class_sel this' c \<sigma>' = (Inr r, \<sigma>'')"
    and "\<not> array_includes (index (\<sigma>' ! this')) 2"
  then show "fst (id_sel r v \<sigma>'') = Inl OrderError"
    by (auto simp: method_defs forEach_throws_iff split: if_splits)
qed

theorem add_fragment_OrderError_witness:
  "(0 < length [\<lparr>result = str ''.b'', index = [3]\<rparr>] \<and> IdCat \<noteq> ElementCat \<and>
      (\<exists>k\<in>set (index ([\<lparr>result = str ''.b'', index = [3]\<rparr>] ! 0)). rank IdCat < k) \<and>
      \<not> array_includes (index ([\<lparr>result = str ''.b'', index = [3]\<rparr>] ! 0)) 2 \<and>
      fst (add_fragment IdCat 0 (str ''main'') [\<lparr>result = str ''.b'', index = [3]\<rparr>])
        = Inl OrderError) \<and>
   (class_sel cssSelectorBuilder (str ''b'') initial_store
        = (Inr 0, [\<lparr>result = str ''.b'', index = [3]\<rparr>]) \<and>
      \<not> array_includes (index (initial_store ! cssSelectorBuilder)) 2 \<and>
      fst (id_sel 0 (str ''main'') [\<lparr>result = str ''.b'', index = [3]\<rparr>]) = Inl OrderError)"
  using add_fragment_OrderError [where this = 0 and \<sigma> = "[\<lparr>result = str ''.b'', index = [3]\<rparr>]"
      and cat = IdCat and val = "str ''main''" and this' = cssSelectorBuilder and c = "str ''b''"
      and \<sigma>' = initial_store and r = 0 and \<sigma>'' = "[\<lparr>result = str ''.b'', index = [3]\<rparr>]"
      and v = "str ''main''"]
  by (simp add: class_sel_def push_concat_def array_includes_def initial_store_def
      cssSelectorBuilder_def str_def)

subsection \<open>Repeated fragments\<close>





subsection \<open>Building and reading a selector\<close>

lemma full_chain_general:
  assumes "b < length \<sigma>" and "\<not> array_includes (index (\<sigma> ! b)) 1"
  shows "full_chain b tag i c a pc pe \<sigma> =
     (Inr (tag @ str ''#'' @ i @ str ''.'' @ c @ str ''['' @ a @ str '']'' @ str '':'' @ pc @
           str ''::'' @ pe),
      \<sigma> @ [\<lparr>result = [], index = []\<rparr>])"
  using assms
  by (simp add: full_chain_def and_then_def method_defs stringify_def nth_append str_def)

text \<open>
  Claim C3. Whatever calls a program has made before, the chain
  \<open>cssSelectorBuilder.element(tag).id(i).class(c).attr(a).pseudoClass(pc).pseudoElement(pe).stringify()\<close>
  returns, for all strings, the text made of \<open>tag\<close>, \<open>#\<close> and \<open>i\<close>, \<open>.\<close> and \<open>c\<close>,
  \<open>[\<close>, \<open>a\<close> and \<open>]\<close>, \<open>:\<close> and \<open>pc\<close>, \<open>::\<close> and \<open>pe\<close>, and nothing else.
\<close>

theorem full_chain_stringify:
  "fst (full_chain cssSelectorBuilder tag i c a pc pe (run calls)) =
     Inr (tag @ str ''#'' @ i @ str ''.'' @ c @ str ''['' @ a @ str '']'' @ str '':'' @ pc @
          str ''::'' @ pe)"
  using exported_ok_run [of calls] by (simp add: exported_ok_def full_chain_general)

theorem full_chain_stringify_witness:
  "fst (full_chain cssSelectorBuilder (str ''div'') (str ''main'') (str ''box'') (str ''href'')
          (str ''hover'') (str ''after'')
          (run [Add ClassCat 0 (str ''x''), Add IdCat 0 (str ''y''), Stringify 0,
                Add ElementCat 0 (str ''p''), Combine 0 1 (str ''+'') 0])) =
     Inr (str ''div#main.box[href]:hover::after'')"
  using full_chain_stringify [of "str ''div''" "str ''main''" "str ''box''" "str ''href''"
      "str ''hover''" "str ''after''"
      "[Add ClassCat 0 (str ''x''), Add IdCat 0 (str ''y''), Stringify 0,
        Add ElementCat 0 (str ''p''), Combine 0 1 (str ''+'') 0]"]
  by (simp add: str_def)

lemma builder_cleared:
  "(b :: builder)\<lparr>result := [], index := []\<rparr> = \<lparr>result = [], index = []\<rparr>"
  by (cases b) simp

text \<open>
  Claim C4. \<open>stringify\<close> on an object of the store returns the text the object holds and
  leaves the object with the empty text and no recorded rank, every other object as it
  was; a second \<open>stringify\<close> right after returns the empty string.
\<close>

theorem stringify_destructive_read:
  assumes "this < length \<sigma>"
  shows "fst (stringify this \<sigma>) = Inr (result (\<sigma> ! this)) \<and>
    snd (stringify this \<sigma>) = \<sigma>[this := \<lparr>result = [], index = []\<rparr>] \<and>
    result (snd (stringify this \<sigma>) ! this) = [] \<and>
    index (snd (stringify this \<sigma>) ! this) = [] \<and>
    fst (stringify this (snd (stringify this \<sigma>))) = Inr []"
  using assms by (simp add: stringify_def builder_cleared)

theorem stringify_destructive_read_witness:
  "0 < length [\<lparr>result = str ''#main.box'', index = [2, 3]\<rparr>] \<and>
   fst (stringify 0 [\<lparr>result = str ''#main.box'', index = [2, 3]\<rparr>]) = Inr (str ''#main.box'') \<and>
   snd (stringify 0 [\<lparr>result = str ''#main.box'', index = [2, 3]\<rparr>])
     = [\<lparr>result = [], index = []\<rparr>] \<and>
   fst (stringify 0 (snd (stringify 0 [\<lparr>result = str ''#main.box'', index = [2, 3]\<rparr>]))) = Inr []"
  using stringify_destructive_read [of 0 "[\<lparr>result = str ''#main.box'', index = [2, 3]\<rparr>]"]
  by (simp add: stringify_def)

subsection \<open>What an error leaves behind\<close>

text \<open>
  Claim C5. When a method that adds a fragment raises \<open>DuplicateError\<close> or
  \<open>OrderError\<close>, the store it leaves differs from the one it found in the receiver's
  \<open>index\<close> alone, which is now empty and was not before; the receiver's text is what it
  was. The call has raised and changed the object.
\<close>

theorem error_resets_index_only:
  assumes "add_fragment cat this val \<sigma> = (Inl e, \<sigma>')"
    and "e = DuplicateError \<or> e = OrderError"
  shows "this < length \<sigma> \<and> \<sigma>' = \<sigma>[this := (\<sigma> ! this)\<lparr>index := []\<rparr>] \<and>
    index (\<sigma>' ! this) = [] \<and> result (\<sigma>' ! this) = result (\<sigma> ! this) \<and>
    index (\<sigma> ! this) \<noteq> [] \<and> \<sigma>' \<noteq> \<sigma>"
proof -
  from assms have in_store: "this < length \<sigma>"
    by (cases cat) (auto simp: method_defs split: if_splits)
  from assms in_store have upd: "\<sigma>' = \<sigma>[this := (\<sigma> ! this)\<lparr>index := []\<rparr>]"
    by (cases cat) (auto simp: method_defs split: if_splits)
  from assms in_store have nonempty: "index (\<sigma> ! this) \<noteq> []"
    by (cases cat) (auto simp: method_defs forEach_throws_iff split: if_splits)
  from in_store upd have after: "index (\<sigma>' ! this) = []" "result (\<sigma>' ! this) = result (\<sigma> ! this)"
    by simp_all
  with nonempty have "\<sigma>' \<noteq> \<sigma>" by auto
  with in_store upd after nonempty show ?thesis by simp
qed

theorem error_resets_index_only_witness:
  "add_fragment IdCat 0 (str ''main'') [\<lparr>result = str ''.box'', index = [3]\<rparr>]
     = (Inl OrderError, [\<lparr>result = str ''.box'', index = []\<rparr>]) \<and>
   add_fragment PseudoElementCat 0 (str ''after'') [\<lparr>result = str ''::before'', index = [6]\<rparr>]
     = (Inl DuplicateError, [\<lparr>result = str ''::before'', index = []\<rparr>]) \<and>
   result ([\<lparr>result = str ''.box'', index = []\<rparr>] ! 0) = str ''.box'' \<and>
   index ([\<lparr>result = str ''.box'', index = []\<rparr>] ! 0) = [] \<and>
   [\<lparr>result = str ''.box'', index = []\<rparr>] \<noteq> [\<lparr>result = str ''.box'', index = [3]\<rparr>]"
proof -
  have raised: "add_fragment IdCat 0 (str ''main'') [\<lparr>result = str ''.box'', index = [3]\<rparr>]
      = (Inl OrderError, [\<lparr>result = str ''.box'', index = []\<rparr>])"
    and raised': "add_fragment PseudoElementCat 0 (str ''after'')
        [\<lparr>result = str ''::before'', index = [6]\<rparr>]
      = (Inl DuplicateError, [\<lparr>result = str ''::before'', index = []\<rparr>])"
    by (simp_all add: method_defs)
  from error_resets_index_only [OF raised] raised raised' show ?thesis
    by simp
qed

subsection \<open>\<open>combine\<close>\<close>

text \<open>
  Claim C6. For objects \<open>this\<close>, \<open>a\<close> and \<open>b\<close> of the store and every string \<open>com\<close>,
  \<open>combine(a, com, b)\<close> returns \<open>this\<close> and raises nothing, and
  \<open>combine(a, com, b).stringify()\<close> returns what the expression
  \<open>a.stringify() + ' ' + com + ' ' + b.stringify()\<close> returns in the same store: the text
  of \<open>a\<close>, a space, \<open>com\<close>, a space, and the text of \<open>b\<close>, which is empty when \<open>b\<close> is
  the object \<open>a\<close>, just read.
\<close>

theorem combine_stringify:
  assumes "this < length \<sigma>" and "a < length \<sigma>" and "b < length \<sigma>"
  shows "fst (combine this a com b \<sigma>) = Inr this \<and>
    fst (and_then (combine this a com b) stringify \<sigma>) =
      fst (and_then (stringify a) (\<lambda>sa. and_then (stringify b) (\<lambda>sb.
             returns (sa @ str '' '' @ com @ str '' '' @ sb))) \<sigma>) \<and>
    fst (and_then (combine this a com b) stringify \<sigma>) =
      Inr (result (\<sigma> ! a) @ str '' '' @ com @ str '' '' @
           (if b = a then [] else result (\<sigma> ! b)))"
  using assms by (simp add: combine_def stringify_def and_then_def returns_def)

theorem combine_stringify_witness:
  "0 < length [\<lparr>result = [], index = []\<rparr>, \<lparr>result = str ''div#main'', index = [1, 2]\<rparr>,
       \<lparr>result = str ''p'', index = [1]\<rparr>] \<and>
   1 < length [\<lparr>result = [], index = []\<rparr>, \<lparr>result = str ''div#main'', index = [1, 2]\<rparr>,
       \<lparr>result = str ''p'', index = [1]\<rparr>] \<and>
   2 < length [\<lparr>result = [], index = []\<rparr>, \<lparr>result = str ''div#main'', index = [1, 2]\<rparr>,
       \<lparr>result = str ''p'', index = [1]\<rparr>] \<and>
   fst (and_then (combine 0 1 (str ''+'') 2) stringify
     [\<lparr>result = [], index = []\<rparr>, \<lparr>result = str ''div#main'', index = [1, 2]\<rparr>,
       \<lparr>result = str ''p'', index = [1]\<rparr>]) = Inr (str ''div#main + p'')"
  using combine_stringify [of 0 "[\<lparr>result = [], index = []\<rparr>,
      \<lparr>result = str ''div#main'', index = [1, 2]\<rparr>, \<lparr>result = str ''p'', index = [1]\<rparr>]" 1 2
      "str ''+''"]
  by (simp add: str_def combine_def stringify_def and_then_def returns_def)

end
